theory Spec2Isabelle
  imports Main
begin

section \<open>Strings and request data\<close>

text \<open>
  A JavaScript string is a sequence of UTF-16 code units; a code unit is modelled as a
  natural number. \<open>S\<close> turns an ASCII literal into such a string.
\<close>

type_synonym jstring = "nat list"

definition S :: "string \<Rightarrow> jstring" where
  "S cs = map of_char cs"

text \<open>\<open>String(n)\<close> for a non-negative integer: its decimal digits.\<close>

fun decimal :: "nat \<Rightarrow> jstring" where
  "decimal n = (if n < 10 then [48 + n] else decimal (n div 10) @ [48 + n mod 10])"

declare decimal.simps [simp del]

text \<open>
  A parsed request value. \<open>JNull\<close> stands for both \<open>null\<close> and \<open>undefined\<close>
  (both are falsy and neither is a string or a traversable object). Numbers are kept as
  integers: none of the modelled code looks inside a number. \<open>JObj\<close> lists the own
  enumerable properties of an object in the order in which \<open>for ... in\<close> and
  \<open>Object.entries\<close> visit them.
\<close>

datatype json =
    JNull
  | JBool bool
  | JNum int
  | JStr jstring
  | JArr "json list"
  | JObj "(jstring \<times> json) list"

text \<open>JavaScript truthiness, as used by \<open>if (req.body)\<close> and \<open>if (source.data)\<close>.\<close>

fun truthy :: "json \<Rightarrow> bool" where
  "truthy JNull = False"
| "truthy (JBool b) = b"
| "truthy (JNum n) = (n \<noteq> 0)"
| "truthy (JStr s) = (s \<noteq> [])"
| "truthy (JArr _) = True"
| "truthy (JObj _) = True"

text \<open>
  \<open>obj.hasOwnProperty(key)\<close> looks the method up on the object itself first. An object
  that has an own property named \<open>hasOwnProperty\<close> (its value parsed from the request is
  never a function) makes the call raise a TypeError; on every other object the inherited
  method answers \<open>true\<close> for each key the loop visits.
\<close>

definition shadowed :: "(jstring \<times> json) list \<Rightarrow> bool" where
  "shadowed kvs = (S ''hasOwnProperty'' \<in> set (map fst kvs))"

section \<open>Regular expressions of the injection pattern detector\<close>

text \<open>\<open>\w\<close>: ASCII letters, digits and the underscore.\<close>

definition is_word :: "nat \<Rightarrow> bool" where
  "is_word c = ((48 \<le> c \<and> c \<le> 57) \<or> (65 \<le> c \<and> c \<le> 90) \<or> c = 95 \<or> (97 \<le> c \<and> c \<le> 122))"

text \<open>
  Matching under the \<open>i\<close> flag (without \<open>u\<close>) against an upper-case ASCII letter of
  the pattern: only the letter itself and its ASCII lower-case form match.
\<close>

definition upper :: "nat \<Rightarrow> nat" where
  "upper c = (if 97 \<le> c \<and> c \<le> 122 then c - 32 else c)"

text \<open>Line terminators, which \<open>.\<close> does not match.\<close>

definition line_term :: "nat \<Rightarrow> bool" where
  "line_term c = (c = 10 \<or> c = 13 \<or> c = 8232 \<or> c = 8233)"

text \<open>
  A regular expression without anchors is tried at every position of the string.
  \<open>scan P prev s\<close> holds when \<open>P\<close> holds at some position of \<open>s\<close>, where \<open>P\<close> is
  given the code unit before the position (if any) and the rest of the string from it.
\<close>

fun scan :: "(nat option \<Rightarrow> jstring \<Rightarrow> bool) \<Rightarrow> nat option \<Rightarrow> jstring \<Rightarrow> bool" where
  "scan P prev [] = P prev []"
| "scan P prev (c # cs) = (P prev (c # cs) \<or> scan P (Some c) cs)"

text \<open>\<open>\b\<close> between the code unit \<open>prev\<close> and the head of \<open>rest\<close>.\<close>

definition word_boundary :: "nat option \<Rightarrow> jstring \<Rightarrow> bool" where
  "word_boundary prev rest =
     ((case prev of None \<Rightarrow> False | Some c \<Rightarrow> is_word c) \<noteq>
      (case rest of [] \<Rightarrow> False | c # _ \<Rightarrow> is_word c))"

fun starts_with :: "jstring \<Rightarrow> jstring \<Rightarrow> bool" where
  "starts_with [] s = True"
| "starts_with (p # ps) [] = False"
| "starts_with (p # ps) (c # cs) = (p = c \<and> starts_with ps cs)"

fun starts_with_ci :: "jstring \<Rightarrow> jstring \<Rightarrow> bool" where
  "starts_with_ci [] s = True"
| "starts_with_ci (p # ps) [] = False"
| "starts_with_ci (p # ps) (c # cs) = (p = upper c \<and> starts_with_ci ps cs)"

definition contains :: "jstring \<Rightarrow> jstring \<Rightarrow> bool" where
  "contains p s = scan (\<lambda>_ rest. starts_with p rest) None s"

text \<open>\<open>\b(kw1|kw2|...)\b\<close> at one position; the keywords are non-empty.\<close>

definition keyword_at :: "jstring list \<Rightarrow> nat option \<Rightarrow> jstring \<Rightarrow> bool" where
  "keyword_at kws prev rest =
     (\<exists>kw \<in> set kws. word_boundary prev rest \<and> starts_with_ci kw rest \<and>
        word_boundary (Some (last (take (length kw) rest))) (drop (length kw) rest))"

definition sql_keywords :: "jstring list" where
  "sql_keywords = map S [''SELECT'', ''INSERT'', ''UPDATE'', ''DELETE'', ''DROP'', ''CREATE'',
     ''ALTER'', ''EXEC'', ''UNION'', ''SCRIPT'']"

text \<open>\<open>/(\b(SELECT|INSERT|UPDATE|DELETE|DROP|CREATE|ALTER|EXEC|UNION|SCRIPT)\b)/i\<close>\<close>

definition pattern_keyword :: "jstring \<Rightarrow> bool" where
  "pattern_keyword s = scan (keyword_at sql_keywords) None s"

text \<open>\<open>/(;|\-\-|\/\*|\*\/)/\<close>\<close>

definition pattern_syntax :: "jstring \<Rightarrow> bool" where
  "pattern_syntax s =
     (contains (S '';'') s \<or> contains (S ''--'') s \<or> contains (S ''/*'') s \<or> contains (S ''*/'') s)"

text \<open>\<open>/(\b(OR|AND)\b.*=.*)/i\<close>: the keyword, then an equals sign on the same line.\<close>

definition tautology_at :: "nat option \<Rightarrow> jstring \<Rightarrow> bool" where
  "tautology_at prev rest =
     (\<exists>kw \<in> set (map S [''OR'', ''AND'']). word_boundary prev rest \<and> starts_with_ci kw rest \<and>
        word_boundary (Some (last (take (length kw) rest))) (drop (length kw) rest) \<and>
        61 \<in> set (takeWhile (\<lambda>c. \<not> line_term c) (drop (length kw) rest)))"

definition pattern_tautology :: "jstring \<Rightarrow> bool" where
  "pattern_tautology s = scan tautology_at None s"

text \<open>\<open>/(1=1|1=0)/\<close>\<close>

definition pattern_constant :: "jstring \<Rightarrow> bool" where
  "pattern_constant s = (contains (S ''1=1'') s \<or> contains (S ''1=0'') s)"

text \<open>\<open>/('|('')|"|(""))/\<close>: the code units 39 and 34 are the two quote characters.\<close>

definition pattern_quote :: "jstring \<Rightarrow> bool" where
  "pattern_quote s =
     (contains [39] s \<or> contains [39, 39] s \<or> contains [34] s \<or> contains [34, 34] s)"

text \<open>
  \<open>detectSQLInjection\<close> on a string: \<open>sqlPatterns.some(pattern => pattern.test(value))\<close>.
  The caller only passes strings.
\<close>

definition detectSQLInjection :: "jstring \<Rightarrow> bool" where
  "detectSQLInjection v =
     list_ex (\<lambda>pattern. pattern v)
       [pattern_keyword, pattern_syntax, pattern_tautology, pattern_constant, pattern_quote]"

section \<open>The injection pattern detector\<close>

text \<open>
  What a middleware does with a request: it calls \<open>next()\<close>, answers with status 400 and a
  \<open>field\<close>, or raises (Express then hands the exception to the error handler).
\<close>

datatype verdict = Continue | Reject jstring | TypeError

text \<open>\<open>const currentPath = path ? `${path}.${key}` : key\<close>; the empty path is falsy.\<close>

definition currentPath :: "jstring \<Rightarrow> jstring \<Rightarrow> jstring" where
  "currentPath path key = (if path \<noteq> [] then path @ S ''.'' @ key else key)"

text \<open>
  \<open>checkObject\<close>. \<open>for (const key in obj)\<close> visits the own properties of an object in
  order, the indices of an array (or of a string primitive) in order, and nothing on a
  number or boolean. \<open>checkProps\<close> is the loop over the remaining properties of an
  object, \<open>checkItems\<close> the loop over the remaining elements of an array from index
  \<open>i\<close>, and \<open>checkValue\<close> the body of the loop for one value \<open>obj[key]\<close> with
  its \<open>currentPath\<close>, including the recursive call \<open>checkObject(obj[key], currentPath)\<close>.
\<close>

fun checkProps :: "(jstring \<times> json) list \<Rightarrow> jstring \<Rightarrow> verdict"
  and checkItems :: "json list \<Rightarrow> nat \<Rightarrow> jstring \<Rightarrow> verdict"
  and checkValue :: "json \<Rightarrow> jstring \<Rightarrow> verdict"
where
  "checkProps [] path = Continue"
| "checkProps ((key, v) # kvs) path =
     (case checkValue v (currentPath path key) of
        Continue \<Rightarrow> checkProps kvs path
      | r \<Rightarrow> r)"
| "checkItems [] i path = Continue"
| "checkItems (v # vs) i path =
     (case checkValue v (currentPath path (decimal i)) of
        Continue \<Rightarrow> checkItems vs (Suc i) path
      | r \<Rightarrow> r)"
| "checkValue (JStr s) cur = (if detectSQLInjection s then Reject cur else Continue)"
| "checkValue (JObj kvs) cur = (if shadowed kvs then TypeError else checkProps kvs cur)"
| "checkValue (JArr xs) cur = checkItems xs 0 cur"
| "checkValue JNull cur = Continue"
| "checkValue (JBool b) cur = Continue"
| "checkValue (JNum n) cur = Continue"

definition checkObject :: "json \<Rightarrow> jstring \<Rightarrow> verdict" where
  "checkObject obj path =
     (case obj of
        JObj kvs \<Rightarrow> (if shadowed kvs then TypeError else checkProps kvs path)
      | JArr xs \<Rightarrow> checkItems xs 0 path
      | JStr s \<Rightarrow> checkItems (map (\<lambda>c. JStr [c]) s) 0 path
      | _ \<Rightarrow> Continue)"

text \<open>
  The sources loop of \<open>sqlInjectionProtection\<close>: body, query, params, each checked with
  the empty path when it is truthy; the first result that is not \<open>null\<close> ends the
  middleware.
\<close>

fun check_sources :: "json list \<Rightarrow> verdict" where
  "check_sources [] = Continue"
| "check_sources (d # ds) =
     (if truthy d
      then (case checkObject d [] of Continue \<Rightarrow> check_sources ds | r \<Rightarrow> r)
      else check_sources ds)"

definition sqlInjectionProtection :: "json \<Rightarrow> json \<Rightarrow> json \<Rightarrow> verdict" where
  "sqlInjectionProtection body query params = check_sources [body, query, params]"

section \<open>The request size guard\<close>

text \<open>
  White space as \<open>parseInt\<close>, \<open>String.prototype.trim\<close> and the class \<open>\s\<close> see it:
  the ECMAScript WhiteSpace and LineTerminator code units.
\<close>

definition js_space :: "nat \<Rightarrow> bool" where
  "js_space c = (c = 9 \<or> c = 10 \<or> c = 11 \<or> c = 12 \<or> c = 13 \<or> c = 32 \<or> c = 160 \<or>
     c = 5760 \<or> (8192 \<le> c \<and> c \<le> 8202) \<or> c = 8232 \<or> c = 8233 \<or> c = 8239 \<or>
     c = 8287 \<or> c = 12288 \<or> c = 65279)"

definition digit_val :: "nat \<Rightarrow> nat option" where
  "digit_val c =
     (if 48 \<le> c \<and> c \<le> 57 then Some (c - 48)
      else if 97 \<le> c \<and> c \<le> 122 then Some (c - 87)
      else if 65 \<le> c \<and> c \<le> 90 then Some (c - 55)
      else None)"

definition radix_digit :: "nat \<Rightarrow> nat \<Rightarrow> bool" where
  "radix_digit R c = (case digit_val c of None \<Rightarrow> False | Some d \<Rightarrow> d < R)"

fun radix_value :: "nat \<Rightarrow> nat \<Rightarrow> jstring \<Rightarrow> nat" where
  "radix_value R acc [] = acc"
| "radix_value R acc (c # cs) =
     radix_value R (case digit_val c of None \<Rightarrow> acc | Some d \<Rightarrow> acc * R + d) cs"

text \<open>
  \<open>parseInt(string)\<close> with no radix, and \<open>parseInt(string, 10)\<close>: leading white space
  is skipped, a sign is read, without a radix the prefix \<open>0x\<close>/\<open>0X\<close> selects base 16,
  and the longest run of digits is the value; \<open>None\<close> is \<open>NaN\<close>. The result is the
  exact integer: the modelled code only compares it with integers far below
  \<open>2^53\<close>, where the rounding of the floating-point result cannot change the outcome.
\<close>

definition parseInt_from :: "bool \<Rightarrow> jstring \<Rightarrow> int option" where
  "parseInt_from strip_prefix str =
     (let s1 = dropWhile js_space str;
          neg = (case s1 of [] \<Rightarrow> False | c # _ \<Rightarrow> c = 45);
          s2 = (case s1 of [] \<Rightarrow> [] | c # cs \<Rightarrow> if c = 45 \<or> c = 43 then cs else s1);
          hex = (strip_prefix \<and> (starts_with (S ''0x'') s2 \<or> starts_with (S ''0X'') s2));
          R = (if hex then 16 else 10);
          s3 = (if hex then drop 2 s2 else s2);
          Z = takeWhile (radix_digit R) s3
      in if Z = [] then None
         else Some ((if neg then - 1 else 1) * int (radix_value R 0 Z)))"

definition parseInt :: "jstring \<Rightarrow> int option" where
  "parseInt str = parseInt_from True str"

definition parseInt10 :: "jstring \<Rightarrow> int option" where
  "parseInt10 str = parseInt_from False str"

definition maxSize :: int where
  "maxSize = 10 * 1024 * 1024"

text \<open>
  \<open>requestSizeLimiter\<close>, given \<open>req.headers['content-length']\<close> (\<open>None\<close> when the
  header is absent): \<open>True\<close> when it answers 413, \<open>False\<close> when it calls \<open>next()\<close>.
  The empty string is falsy, and a comparison with \<open>NaN\<close> is false.
\<close>

definition requestSizeLimiter :: "jstring option \<Rightarrow> bool" where
  "requestSizeLimiter content_length =
     (case content_length of
        None \<Rightarrow> False
      | Some h \<Rightarrow> h \<noteq> [] \<and> (case parseInt h of None \<Rightarrow> False | Some n \<Rightarrow> n > maxSize))"

section \<open>The content sanitizer\<close>

text \<open>
  \<open>sanitizeObject\<close>, with \<open>purify\<close> standing for
  \<open>DOMPurify.sanitize(_, {ALLOWED_TAGS: [], ALLOWED_ATTR: [], KEEP_CONTENT: true})\<close>, a
  function of the DOMPurify library. The source assigns into the object it walks; the
  model returns the rewritten value, or \<open>None\<close> when the walk raises a TypeError.
  \<open>sanitizeProps\<close> and \<open>sanitizeItems\<close> are the loop over the properties of an object
  and over the elements of an array, \<open>sanitizeValue\<close> is the loop body for \<open>obj[key]\<close>.
\<close>

fun sanitizeProps :: "(jstring \<Rightarrow> jstring) \<Rightarrow> (jstring \<times> json) list \<Rightarrow> (jstring \<times> json) list option"
  and sanitizeItems :: "(jstring \<Rightarrow> jstring) \<Rightarrow> json list \<Rightarrow> json list option"
  and sanitizeValue :: "(jstring \<Rightarrow> jstring) \<Rightarrow> json \<Rightarrow> json option"
where
  "sanitizeProps purify [] = Some []"
| "sanitizeProps purify ((key, v) # kvs) =
     (case sanitizeValue purify v of
        None \<Rightarrow> None
      | Some v' \<Rightarrow> (case sanitizeProps purify kvs of
                     None \<Rightarrow> None
                   | Some kvs' \<Rightarrow> Some ((key, v') # kvs')))"
| "sanitizeItems purify [] = Some []"
| "sanitizeItems purify (v # vs) =
     (case sanitizeValue purify v of
        None \<Rightarrow> None
      | Some v' \<Rightarrow> (case sanitizeItems purify vs of
                     None \<Rightarrow> None
                   | Some vs' \<Rightarrow> Some (v' # vs')))"
| "sanitizeValue purify (JStr s) = Some (JStr (purify s))"
| "sanitizeValue purify (JObj kvs) =
     (if shadowed kvs then None else map_option JObj (sanitizeProps purify kvs))"
| "sanitizeValue purify (JArr xs) = map_option JArr (sanitizeItems purify xs)"
| "sanitizeValue purify JNull = Some JNull"
| "sanitizeValue purify (JBool b) = Some (JBool b)"
| "sanitizeValue purify (JNum n) = Some (JNum n)"

text \<open>
  \<open>if (obj && typeof obj === 'object')\<close>: only a (non-null) object or array is walked; any
  other value, a top-level string included, is left as it is.
\<close>

definition sanitizeObject :: "(jstring \<Rightarrow> jstring) \<Rightarrow> json \<Rightarrow> json option" where
  "sanitizeObject purify obj =
     (case obj of
        JObj kvs \<Rightarrow> sanitizeValue purify obj
      | JArr xs \<Rightarrow> sanitizeValue purify obj
      | _ \<Rightarrow> Some obj)"

text \<open>
  \<open>xssProtection\<close> on body, query and params, in this order; each is sanitized when it is
  truthy. \<open>None\<close> is a raised TypeError.
\<close>

definition sanitize_source :: "(jstring \<Rightarrow> jstring) \<Rightarrow> json \<Rightarrow> json option" where
  "sanitize_source purify d = (if truthy d then sanitizeObject purify d else Some d)"

definition xssProtection :: "(jstring \<Rightarrow> jstring) \<Rightarrow> json \<Rightarrow> json \<Rightarrow> json \<Rightarrow> (json \<times> json \<times> json) option" where
  "xssProtection purify body query params =
     (case sanitize_source purify body of
        None \<Rightarrow> None
      | Some body' \<Rightarrow>
          (case sanitize_source purify query of
             None \<Rightarrow> None
           | Some query' \<Rightarrow>
               (case sanitize_source purify params of
                  None \<Rightarrow> None
                | Some params' \<Rightarrow> Some (body', query', params'))))"

section \<open>Rate limiters\<close>

text \<open>
  The arguments of \<open>createRateLimit\<close>; the other options are the same for the three
  limiters (\<open>skipSuccessfulRequests: false\<close>, \<open>skipFailedRequests: false\<close>: a counted
  request stays counted whatever the response turns out to be).
\<close>

record limiter =
  windowMs :: nat
  max_hits :: nat
  message :: jstring

definition createRateLimit :: "nat \<Rightarrow> nat \<Rightarrow> jstring \<Rightarrow> limiter" where
  "createRateLimit w m msg = \<lparr>windowMs = w, max_hits = m, message = msg\<rparr>"

definition generalLimiter :: limiter where
  "generalLimiter = createRateLimit (15 * 60 * 1000) 100
     (S ''Too many requests from this IP, please try again after 15 minutes'')"

definition strictLimiter :: limiter where
  "strictLimiter = createRateLimit (15 * 60 * 1000) 5
     (S ''Too many attempts, please try again after 15 minutes'')"

definition apiLimiter :: limiter where
  "apiLimiter = createRateLimit (60 * 60 * 1000) 1000
     (S ''API rate limit exceeded, please try again after an hour'')"

text \<open>
  Modelled from the spec: the counting done by the \<open>express-rate-limit\<close> package, which is
  not part of the repository. Each limiter keeps, per client address, the number of
  requests counted in the client's current window and the time at which that window ends.
  A request arriving when the client has no window, or after its window has ended, opens a
  new window of \<open>windowMs\<close> milliseconds with a count of zero. The request is then
  counted; it is refused (status 429) when the count exceeds the maximum, and the quota
  metadata gives the limit and the remaining quota, which never goes below zero.
\<close>

type_synonym hits = "jstring \<Rightarrow> (nat \<times> nat) option"

record quota =
  allowed :: bool
  limit :: nat
  remaining :: nat
  reset :: nat

definition rate_limit :: "limiter \<Rightarrow> hits \<Rightarrow> jstring \<Rightarrow> nat \<Rightarrow> hits \<times> quota" where
  "rate_limit l store key now =
     (let (count, resetTime) =
            (case store key of
               None \<Rightarrow> (0, now + windowMs l)
             | Some (c, r) \<Rightarrow> if r \<le> now then (0, now + windowMs l) else (c, r));
          totalHits = count + 1
      in (store(key \<mapsto> (totalHits, resetTime)),
          \<lparr>allowed = (totalHits \<le> max_hits l), limit = max_hits l,
           remaining = max_hits l - totalHits, reset = resetTime\<rparr>))"

section \<open>Responses\<close>

text \<open>
  A response: its status, the value handed to \<open>res.json\<close>, and the quota metadata
  written by the last rate limiter that saw the request (each limiter overwrites the
  same headers).
\<close>

record response =
  status :: nat
  rbody :: json
  ratelimit :: "quota option"

definition respond :: "nat \<Rightarrow> json \<Rightarrow> response" where
  "respond st b = \<lparr>status = st, rbody = b, ratelimit = None\<rparr>"

section \<open>Field validation\<close>

text \<open>An error recorded by a validation chain: \<open>path\<close>, \<open>msg\<close> and \<open>value\<close>.\<close>

record verror =
  e_path :: jstring
  e_msg :: jstring
  e_value :: json

text \<open>
  \<open>validate\<close>, given \<open>validationResult(req).array()\<close>: the 400 response, or \<open>None\<close>
  for \<open>next()\<close>.
\<close>

definition validate :: "verror list \<Rightarrow> response option" where
  "validate errors =
     (if errors \<noteq> []
      then Some (respond 400 (JObj
             [(S ''error'', JStr (S ''Validation failed'')),
              (S ''details'', JArr (map (\<lambda>err. JObj
                  [(S ''field'', JStr (e_path err)),
                   (S ''message'', JStr (e_msg err)),
                   (S ''value'', e_value err)]) errors))]))
      else None)"

text \<open>
  The steps of a validation chain as the source writes them: \<open>.optional()\<close>, a sanitizer
  (\<open>.trim()\<close>, \<open>.escape()\<close>, \<open>.normalizeEmail()\<close>, \<open>.customSanitizer(f)\<close>) and a
  validator with the message that follows it (\<open>.withMessage\<close>, or the message of the
  error a custom validator throws).
\<close>

datatype step =
    Optional
  | Sanitizer "jstring \<Rightarrow> json"
  | Validator "jstring \<Rightarrow> bool" jstring

text \<open>
  Functions of the libraries the code calls, taken as parameters: DOMPurify's
  \<open>sanitize\<close> with the options of \<open>xssProtection\<close>; the validators \<open>isLength\<close>
  (minimum, maximum) and \<open>isEmail\<close> and the sanitizer \<open>normalizeEmail\<close> (with the
  options of the source; \<open>None\<close> is its result \<open>false\<close>) of validator.js; what
  express-validator does with the rest of a chain once the value of the field is not a
  string (absent from the body where the chain is not optional, or a number, boolean,
  \<open>null\<close>, array or object); and whether \<open>NODE_ENV\<close> is \<open>development\<close>.
\<close>

record lib =
  purify :: "jstring \<Rightarrow> jstring"
  isLength :: "nat \<Rightarrow> nat option \<Rightarrow> jstring \<Rightarrow> bool"
  isEmail :: "jstring \<Rightarrow> bool"
  normalizeEmail :: "jstring \<Rightarrow> jstring option"
  nonstring :: "jstring \<Rightarrow> step list \<Rightarrow> json option \<Rightarrow> verror list \<times> json option"
  development :: bool

text \<open>
  Running the steps of one chain on the value of its field (\<open>None\<close>: the field is
  \<open>undefined\<close>). No step stops the chain after a failure: every validator runs and adds
  its own error. A sanitizer replaces the value, and an error carries the value the
  validator saw.
\<close>

fun run_steps :: "lib \<Rightarrow> jstring \<Rightarrow> step list \<Rightarrow> json option \<Rightarrow> verror list \<times> json option" where
  "run_steps L f [] v = ([], v)"
| "run_steps L f (Optional # sts) None = ([], None)"
| "run_steps L f (Optional # sts) (Some (JStr s)) = run_steps L f sts (Some (JStr s))"
| "run_steps L f (Sanitizer g # sts) (Some (JStr s)) = run_steps L f sts (Some (g s))"
| "run_steps L f (Validator p m # sts) (Some (JStr s)) =
     (let (es, v') = run_steps L f sts (Some (JStr s))
      in ((if p s then [] else [\<lparr>e_path = f, e_msg = m, e_value = JStr s\<rparr>]) @ es, v'))"
| "run_steps L f (st # sts) v = nonstring L f (st # sts) v"

definition get_field :: "json \<Rightarrow> jstring \<Rightarrow> json option" where
  "get_field obj f = (case obj of JObj kvs \<Rightarrow> map_of kvs f | _ \<Rightarrow> None)"

fun set_prop :: "jstring \<Rightarrow> json \<Rightarrow> (jstring \<times> json) list \<Rightarrow> (jstring \<times> json) list" where
  "set_prop f v [] = [(f, v)]"
| "set_prop f v ((k, x) # kvs) = (if k = f then (k, v) # kvs else (k, x) # set_prop f v kvs)"

definition set_field :: "json \<Rightarrow> jstring \<Rightarrow> json \<Rightarrow> json" where
  "set_field obj f v = (case obj of JObj kvs \<Rightarrow> JObj (set_prop f v kvs) | _ \<Rightarrow> obj)"

definition run_chain :: "lib \<Rightarrow> jstring \<Rightarrow> step list \<Rightarrow> json \<Rightarrow> verror list \<times> json" where
  "run_chain L f sts b =
     (let (es, v') = run_steps L f sts (get_field b f)
      in (es, case v' of None \<Rightarrow> b | Some v \<Rightarrow> set_field b f v))"

text \<open>The chains of one validator list run one after the other on the same request.\<close>

fun run_chains :: "lib \<Rightarrow> (jstring \<times> step list) list \<Rightarrow> json \<Rightarrow> verror list \<times> json" where
  "run_chains L [] b = ([], b)"
| "run_chains L ((f, sts) # cs) b =
     (let (es, b1) = run_chain L f sts b;
          (es', b2) = run_chains L cs b1
      in (es @ es', b2))"

subsection \<open>Sanitizers and regular expressions of the chains\<close>

definition js_trim :: "jstring \<Rightarrow> jstring" where
  "js_trim s = rev (dropWhile js_space (rev (dropWhile js_space s)))"

text \<open>\<open>.escape()\<close> of validator.js: \<open>& " ' < > / \ `\<close> become character references.\<close>

definition escape_char :: "nat \<Rightarrow> jstring" where
  "escape_char c =
     (if c = 38 then S ''&amp;'' else if c = 34 then S ''&quot;''
      else if c = 39 then S ''&#x27;'' else if c = 60 then S ''&lt;''
      else if c = 62 then S ''&gt;'' else if c = 47 then S ''&#x2F;''
      else if c = 92 then S ''&#x5C;'' else if c = 96 then S ''&#96;'' else [c])"

definition escape :: "jstring \<Rightarrow> jstring" where
  "escape s = concat (map escape_char s)"

text \<open>\<open>value.replace(/\s+/g, ' ').trim()\<close>; the flag says that a space was just written.\<close>

fun collapse_from :: "bool \<Rightarrow> jstring \<Rightarrow> jstring" where
  "collapse_from b [] = []"
| "collapse_from b (c # cs) =
     (if js_space c then (if b then collapse_from True cs else 32 # collapse_from True cs)
      else c # collapse_from False cs)"

definition collapse_spaces :: "jstring \<Rightarrow> jstring" where
  "collapse_spaces s = js_trim (collapse_from False s)"

definition is_digit :: "nat \<Rightarrow> bool" where
  "is_digit c = (48 \<le> c \<and> c \<le> 57)"

text \<open>\<open>value.replace(/[^\d+]/g, '')\<close>\<close>

definition digits_and_plus :: "jstring \<Rightarrow> jstring" where
  "digits_and_plus s = filter (\<lambda>c. is_digit c \<or> c = 43) s"

text \<open>\<open>/^[a-zA-Z\s\u0590-\u05FF\u0600-\u06FF.-]+$/\<close>\<close>

definition name_char :: "nat \<Rightarrow> bool" where
  "name_char c = ((97 \<le> c \<and> c \<le> 122) \<or> (65 \<le> c \<and> c \<le> 90) \<or> js_space c \<or>
     (1424 \<le> c \<and> c \<le> 1535) \<or> (1536 \<le> c \<and> c \<le> 1791) \<or> c = 46 \<or> c = 45)"

definition name_regex :: "jstring \<Rightarrow> bool" where
  "name_regex s = (s \<noteq> [] \<and> list_all name_char s)"

text \<open>\<open>/^[a-zA-Z0-9\s\u0590-\u05FF\u0600-\u06FF.,-]+$/\<close>\<close>

definition address_char :: "nat \<Rightarrow> bool" where
  "address_char c = ((97 \<le> c \<and> c \<le> 122) \<or> (65 \<le> c \<and> c \<le> 90) \<or> (48 \<le> c \<and> c \<le> 57) \<or>
     js_space c \<or> (1424 \<le> c \<and> c \<le> 1535) \<or> (1536 \<le> c \<and> c \<le> 1791) \<or>
     c = 46 \<or> c = 44 \<or> c = 45)"

definition address_regex :: "jstring \<Rightarrow> bool" where
  "address_regex s = (s \<noteq> [] \<and> list_all address_char s)"

text \<open>\<open>/^\+9725\d{8}$/\<close>\<close>

definition phone_regex :: "jstring \<Rightarrow> bool" where
  "phone_regex s = (starts_with (S ''+9725'') s \<and> length s = 13 \<and> list_all is_digit (drop 5 s))"

definition contains_ci :: "jstring \<Rightarrow> jstring \<Rightarrow> bool" where
  "contains_ci p s = scan (\<lambda>_ rest. starts_with_ci p rest) None s"

text \<open>The rest of the line: what \<open>.*\<close> can run over.\<close>

definition same_line :: "jstring \<Rightarrow> jstring" where
  "same_line s = takeWhile (\<lambda>c. \<not> line_term c) s"

text \<open>
  The \<open>suspiciousPatterns\<close> of the email chain: \<open>/\+.*script/i\<close>, \<open>/javascript:/i\<close>,
  \<open>/data:/i\<close>, \<open>/<.*>/\<close>.
\<close>

definition suspiciousPatterns :: "jstring \<Rightarrow> bool" where
  "suspiciousPatterns s =
     (scan (\<lambda>_ rest. case rest of [] \<Rightarrow> False
                     | c # cs \<Rightarrow> c = 43 \<and> contains_ci (S ''SCRIPT'') (same_line cs)) None s \<or>
      contains_ci (S ''JAVASCRIPT:'') s \<or>
      contains_ci (S ''DATA:'') s \<or>
      scan (\<lambda>_ rest. case rest of [] \<Rightarrow> False
                     | c # cs \<Rightarrow> c = 60 \<and> 62 \<in> set (same_line cs)) None s)"

text \<open>
  The \<open>dangerousPatterns\<close> of the cross-field check: \<open>/<script[^>]*>.*?<\/script>/gi\<close>,
  \<open>/javascript:/gi\<close>, \<open>/on\w+\s*=/gi\<close>, \<open>/expression\s*\(/gi\<close>, \<open>/vbscript:/gi\<close>,
  \<open>/data:text\/html/gi\<close>. Each regular expression is created when the check runs, so
  \<open>test\<close> starts at the beginning of the string.
\<close>

definition script_element_at :: "jstring \<Rightarrow> bool" where
  "script_element_at rest =
     (starts_with_ci (S ''<SCRIPT'') rest \<and>
      (case dropWhile (\<lambda>c. c \<noteq> 62) (drop 7 rest) of
         [] \<Rightarrow> False
       | _ # after \<Rightarrow> contains_ci (S ''</SCRIPT>'') (same_line after)))"

definition handler_attr_at :: "jstring \<Rightarrow> bool" where
  "handler_attr_at rest =
     (starts_with_ci (S ''ON'') rest \<and>
      (let r = drop 2 rest; w = takeWhile is_word r
       in w \<noteq> [] \<and> (case dropWhile js_space (drop (length w) r) of
                        [] \<Rightarrow> False | c # _ \<Rightarrow> c = 61)))"

definition expression_at :: "jstring \<Rightarrow> bool" where
  "expression_at rest =
     (starts_with_ci (S ''EXPRESSION'') rest \<and>
      (case dropWhile js_space (drop 10 rest) of [] \<Rightarrow> False | c # _ \<Rightarrow> c = 40))"

definition dangerousPatterns :: "jstring \<Rightarrow> bool" where
  "dangerousPatterns s =
     (scan (\<lambda>_ rest. script_element_at rest) None s \<or>
      contains_ci (S ''JAVASCRIPT:'') s \<or>
      scan (\<lambda>_ rest. handler_attr_at rest) None s \<or>
      scan (\<lambda>_ rest. expression_at rest) None s \<or>
      contains_ci (S ''VBSCRIPT:'') s \<or>
      contains_ci (S ''DATA:TEXT/HTML'') s)"

subsection \<open>The validator lists\<close>

definition trimS :: step where
  "trimS = Sanitizer (\<lambda>s. JStr (js_trim s))"

definition escapeS :: step where
  "escapeS = Sanitizer (\<lambda>s. JStr (escape s))"

definition normalizeEmailS :: "lib \<Rightarrow> step" where
  "normalizeEmailS L =
     Sanitizer (\<lambda>s. case normalizeEmail L s of None \<Rightarrow> JBool False | Some t \<Rightarrow> JStr t)"

text \<open>The field chains of \<open>validateUser\<close>, in the order of the source.\<close>

definition validateUser_chains :: "lib \<Rightarrow> (jstring \<times> step list) list" where
  "validateUser_chains L =
     [(S ''name'',
        [trimS,
         Validator (isLength L 2 (Some 100)) (S ''Name must be between 2 and 100 characters''),
         Validator name_regex
           (S ''Name can only contain letters, spaces, dots, hyphens, and Hebrew/Arabic characters''),
         escapeS,
         Sanitizer (\<lambda>s. JStr (collapse_spaces s))]),
      (S ''email'',
        [trimS,
         Validator (isEmail L) (S ''Must be a valid email address''),
         Validator (isLength L 0 (Some 254)) (S ''Email address too long''),
         normalizeEmailS L,
         Validator (\<lambda>s. \<not> suspiciousPatterns s) (S ''Email contains suspicious content'')]),
      (S ''phone'',
        [trimS,
         Validator phone_regex (S ''Must be a valid Israeli phone number (+9725xxxxxxxx)''),
         Sanitizer (\<lambda>s. JStr (digits_and_plus s)),
         Validator (isLength L 13 (Some 13)) (S ''Phone number must be exactly 13 characters'')]),
      (S ''address'',
        [trimS,
         Validator (isLength L 5 (Some 255)) (S ''Address must be between 5 and 255 characters''),
         Validator address_regex (S ''Address contains invalid characters''),
         escapeS,
         Sanitizer (\<lambda>s. JStr (collapse_spaces s))]),
      (S ''city'',
        [trimS,
         Validator (isLength L 2 (Some 100)) (S ''City must be between 2 and 100 characters''),
         Validator name_regex
           (S ''City can only contain letters, spaces, dots, hyphens, and Hebrew/Arabic characters''),
         escapeS,
         Sanitizer (\<lambda>s. JStr (collapse_spaces s))]),
      (S ''country'',
        [trimS,
         Validator (isLength L 2 (Some 100)) (S ''Country must be between 2 and 100 characters''),
         Validator name_regex
           (S ''Country can only contain letters, spaces, dots, hyphens, and Hebrew/Arabic characters''),
         escapeS,
         Sanitizer (\<lambda>s. JStr (collapse_spaces s))])]"

text \<open>\<open>(value) => value ? f(value) : value\<close> on a string: the empty string is falsy.\<close>

definition when_truthy :: "(jstring \<Rightarrow> jstring) \<Rightarrow> jstring \<Rightarrow> json" where
  "when_truthy f s = (if s \<noteq> [] then JStr (f s) else JStr s)"

text \<open>The field chains of \<open>validateUserUpdate\<close>: every field is optional.\<close>

definition validateUserUpdate_chains :: "lib \<Rightarrow> (jstring \<times> step list) list" where
  "validateUserUpdate_chains L =
     [(S ''name'',
        [Optional, trimS,
         Validator (isLength L 2 (Some 100)) (S ''Name must be between 2 and 100 characters''),
         Validator name_regex
           (S ''Name can only contain letters, spaces, dots, hyphens, and Hebrew/Arabic characters''),
         escapeS,
         Sanitizer (when_truthy collapse_spaces)]),
      (S ''email'',
        [Optional, trimS,
         Validator (isEmail L) (S ''Must be a valid email address''),
         Validator (isLength L 0 (Some 254)) (S ''Email address too long''),
         normalizeEmailS L]),
      (S ''phone'',
        [Optional, trimS,
         Validator phone_regex (S ''Must be a valid Israeli phone number (+9725xxxxxxxx)''),
         Sanitizer (when_truthy digits_and_plus)]),
      (S ''address'',
        [Optional, trimS,
         Validator (isLength L 5 (Some 255)) (S ''Address must be between 5 and 255 characters''),
         Validator address_regex (S ''Address contains invalid characters''),
         escapeS,
         Sanitizer (when_truthy collapse_spaces)]),
      (S ''city'',
        [Optional, trimS,
         Validator (isLength L 2 (Some 100)) (S ''City must be between 2 and 100 characters''),
         Validator name_regex
           (S ''City can only contain letters, spaces, dots, hyphens, and Hebrew/Arabic characters''),
         escapeS,
         Sanitizer (when_truthy collapse_spaces)]),
      (S ''country'',
        [Optional, trimS,
         Validator (isLength L 2 (Some 100)) (S ''Country must be between 2 and 100 characters''),
         Validator name_regex
           (S ''Country can only contain letters, spaces, dots, hyphens, and Hebrew/Arabic characters''),
         escapeS,
         Sanitizer (when_truthy collapse_spaces)])]"

text \<open>
  \<open>Object.keys\<close>, \<open>Object.values\<close> and \<open>Object.entries\<close>: the own properties of an
  object, the indices and elements of an array or string, nothing for a number or
  boolean; \<open>None\<close> is the TypeError raised for \<open>null\<close> and \<open>undefined\<close>.
\<close>

definition entries :: "json \<Rightarrow> (jstring \<times> json) list option" where
  "entries obj =
     (case obj of
        JObj kvs \<Rightarrow> Some kvs
      | JArr xs \<Rightarrow> Some (zip (map decimal [0..<length xs]) xs)
      | JStr s \<Rightarrow> Some (zip (map decimal [0..<length s]) (map (\<lambda>c. JStr [c]) s))
      | JNull \<Rightarrow> None
      | _ \<Rightarrow> Some [])"

text \<open>
  The string an element contributes to \<open>Array.prototype.join\<close>: nothing for \<open>null\<close> and
  \<open>undefined\<close>, and \<open>String(v)\<close> otherwise. An object answers \<open>[object Object]\<close>
  unless an own property \<open>toString\<close> hides the inherited method, which raises a TypeError
  (\<open>None\<close>).
\<close>

definition int_string :: "int \<Rightarrow> jstring" where
  "int_string n = (if n < 0 then S ''-'' @ decimal (nat (- n)) else decimal (nat n))"

fun join_item :: "json \<Rightarrow> jstring option"
  and join_items :: "jstring \<Rightarrow> json list \<Rightarrow> jstring option"
where
  "join_item JNull = Some []"
| "join_item (JBool b) = Some (if b then S ''true'' else S ''false'')"
| "join_item (JNum n) = Some (int_string n)"
| "join_item (JStr s) = Some s"
| "join_item (JArr xs) = join_items (S '','') xs"
| "join_item (JObj kvs) =
     (if S ''toString'' \<in> set (map fst kvs) then None else Some (S ''[object Object]''))"
| "join_items sep [] = Some []"
| "join_items sep (x # xs) =
     (case join_item x of
        None \<Rightarrow> None
      | Some a \<Rightarrow> (if xs = [] then Some a
                   else (case join_items sep xs of None \<Rightarrow> None | Some b \<Rightarrow> Some (a @ sep @ b))))"

definition field_error :: "jstring \<Rightarrow> jstring \<Rightarrow> json \<Rightarrow> verror" where
  "field_error f m v = \<lparr>e_path = f, e_msg = m, e_value = v\<rparr>"

text \<open>
  The cross-field check of \<open>validateUser\<close> (\<open>body().custom\<close>): the error it records, if
  any. A custom validator that throws fails with the message of the thrown error.
\<close>

definition suspicious_check :: "json \<Rightarrow> verror list" where
  "suspicious_check b =
     (case entries b of
        None \<Rightarrow> [field_error [] (S ''Cannot convert undefined or null to object'') b]
      | Some kvs \<Rightarrow>
          (case join_items (S '' '') (map snd kvs) of
             None \<Rightarrow> [field_error [] (S ''Cannot convert object to primitive value'') b]
           | Some allValues \<Rightarrow>
               if dangerousPatterns allValues
               then [field_error [] (S ''Suspicious content detected in request'') b]
               else []))"

definition allowedFields :: "jstring list" where
  "allowedFields = map S [''name'', ''email'', ''phone'', ''address'', ''city'', ''country'']"

text \<open>The last check of \<open>validateUserUpdate\<close>: at least one field is provided.\<close>

definition provided_check :: "json \<Rightarrow> verror list" where
  "provided_check b =
     (case entries b of
        None \<Rightarrow> [field_error [] (S ''Cannot convert undefined or null to object'') b]
      | Some kvs \<Rightarrow>
          (let providedFields = filter (\<lambda>key. key \<in> set allowedFields) (map fst kvs)
           in if length providedFields = 0
              then [field_error [] (S ''At least one field must be provided for update'') b]
              else []))"

text \<open>
  A validator list ends with \<open>validate\<close>: \<open>Inl\<close> is the 400 response, \<open>Inr\<close> the body as
  the sanitizers of the chains left it.
\<close>

definition validateUser :: "lib \<Rightarrow> json \<Rightarrow> response + json" where
  "validateUser L b =
     (let (es, b1) = run_chains L (validateUser_chains L) b
      in case validate (es @ suspicious_check b1) of Some r \<Rightarrow> Inl r | None \<Rightarrow> Inr b1)"

definition validateUserUpdate :: "lib \<Rightarrow> json \<Rightarrow> response + json" where
  "validateUserUpdate L b =
     (let (es, b1) = run_chains L (validateUserUpdate_chains L) b
      in case validate (es @ provided_check b1) of Some r \<Rightarrow> Inl r | None \<Rightarrow> Inr b1)"

text \<open>
  \<open>validateId\<close> on the route parameter, a string. \<open>isInt({min: 1, max: 2147483647})\<close> of
  validator.js accepts an optional sign followed by digits whose value lies in the range;
  \<open>toInt()\<close> is \<open>parseInt(_, 10)\<close>; the custom check fails when the decimal form of the
  integer contains one of \<open>' " ` ; \ -\<close>, that is when it is negative. \<open>Inr\<close> is the
  integer left in \<open>req.params.id\<close>.
\<close>

definition isInt_id :: "jstring \<Rightarrow> bool" where
  "isInt_id s =
     (let ds = (case s of [] \<Rightarrow> [] | c # cs \<Rightarrow> if c = 45 \<or> c = 43 then cs else s)
      in ds \<noteq> [] \<and> list_all is_digit ds \<and>
         (case parseInt10 s of None \<Rightarrow> False | Some n \<Rightarrow> 1 \<le> n \<and> n \<le> 2147483647))"

definition validateId :: "jstring \<Rightarrow> response + int" where
  "validateId s =
     (let e1 = (if isInt_id s then []
                else [field_error (S ''id'')
                        (S ''ID must be a positive integer within valid range'') (JStr s)]);
          n = parseInt10 s;
          e2 = (case n of
                  None \<Rightarrow> []
                | Some k \<Rightarrow> if k < 0
                            then [field_error (S ''id'') (S ''Invalid characters in ID'') (JNum k)]
                            else [])
      in case validate (e1 @ e2) of
           Some r \<Rightarrow> Inl r
         | None \<Rightarrow> (case n of Some k \<Rightarrow> Inr k | None \<Rightarrow> Inr 0))"

section \<open>The store\<close>

text \<open>
  Modelled from the spec: the relational store behind \<open>pool.query\<close> (PostgreSQL and the
  schema of the \<open>users\<close> table), which is not part of the repository. A record has the
  fields of the data model; the store assigns \<open>id\<close> and both timestamps, keeps \<open>email\<close>
  unique (a write that would break this fails with code 23505) and refuses a missing value
  (code 23502). A column keeps the parameter value it was given. \<open>qlog\<close> lists the text
  of every statement sent to the store, oldest first.
\<close>

record user =
  u_id :: int
  u_name :: json
  u_email :: json
  u_phone :: json
  u_address :: json
  u_city :: json
  u_country :: json
  created_at :: nat
  updated_at :: nat

record database =
  users :: "user list"
  next_id :: int
  qlog :: "jstring list"

datatype pgerror = UniqueViolation | NotNullViolation | OtherFailure

definition user_json :: "user \<Rightarrow> json" where
  "user_json u = JObj
     [(S ''id'', JNum (u_id u)), (S ''name'', u_name u), (S ''email'', u_email u),
      (S ''phone'', u_phone u), (S ''address'', u_address u), (S ''city'', u_city u),
      (S ''country'', u_country u), (S ''created_at'', JNum (int (created_at u))),
      (S ''updated_at'', JNum (int (updated_at u)))]"

definition log_query :: "jstring \<Rightarrow> database \<Rightarrow> database" where
  "log_query q d = d\<lparr>qlog := qlog d @ [q]\<rparr>"

definition select_all :: "database \<Rightarrow> user list \<times> database" where
  "select_all d =
     (sort_key u_id (users d), log_query (S ''SELECT * FROM users ORDER BY id ASC'') d)"

definition select_by_id :: "int \<Rightarrow> database \<Rightarrow> user list \<times> database" where
  "select_by_id i d =
     (filter (\<lambda>u. u_id u = i) (users d), log_query (S ''SELECT * FROM users WHERE id = $1'') d)"

definition select_by_email :: "json \<Rightarrow> database \<Rightarrow> user list \<times> database" where
  "select_by_email e d =
     (filter (\<lambda>u. e \<noteq> JNull \<and> u_email u = e) (users d),
      log_query (S ''SELECT id FROM users WHERE email = $1'') d)"

definition select_by_email_other :: "json \<Rightarrow> int \<Rightarrow> database \<Rightarrow> user list \<times> database" where
  "select_by_email_other e i d =
     (filter (\<lambda>u. e \<noteq> JNull \<and> u_email u = e \<and> u_id u \<noteq> i) (users d),
      log_query (S ''SELECT id FROM users WHERE email = $1 AND id != $2'') d)"

definition insert_sql :: jstring where
  "insert_sql = S ''INSERT INTO users (name, email, phone, address, city, country) '' @ [10] @
     S ''             VALUES ($1, $2, $3, $4, $5, $6) '' @ [10] @
     S ''             RETURNING *''"

definition insert_user :: "json list \<Rightarrow> nat \<Rightarrow> database \<Rightarrow> (pgerror + user) \<times> database" where
  "insert_user vs t d =
     (let d1 = log_query insert_sql d
      in case vs of
           [n, e, p, a, c, k] \<Rightarrow>
             if JNull \<in> set vs then (Inl NotNullViolation, d1)
             else if e \<in> set (map u_email (users d)) then (Inl UniqueViolation, d1)
             else (let u = \<lparr>u_id = next_id d, u_name = n, u_email = e, u_phone = p,
                             u_address = a, u_city = c, u_country = k,
                             created_at = t, updated_at = t\<rparr>
                   in (Inr u, d1\<lparr>users := users d @ [u], next_id := next_id d + 1\<rparr>))
         | _ \<Rightarrow> (Inl OtherFailure, d1))"

text \<open>
  One item of a \<open>SET\<close> list, as the handlers write them: \<open>column = $n\<close> or
  \<open>column = CURRENT_TIMESTAMP\<close>.
\<close>

datatype set_clause = SetParam jstring nat | SetNow jstring

definition clause_text :: "set_clause \<Rightarrow> jstring" where
  "clause_text c =
     (case c of
        SetParam k n \<Rightarrow> k @ S '' = $'' @ decimal n
      | SetNow k \<Rightarrow> k @ S '' = CURRENT_TIMESTAMP'')"

definition clause_column :: "set_clause \<Rightarrow> jstring" where
  "clause_column c = (case c of SetParam k n \<Rightarrow> k | SetNow k \<Rightarrow> k)"

text \<open>The value of placeholder \<open>$n\<close> in a parameter array, if it has one.\<close>

definition param :: "json list \<Rightarrow> nat \<Rightarrow> json option" where
  "param vs n = (if 1 \<le> n \<and> n \<le> length vs then Some (vs ! (n - 1)) else None)"

text \<open>
  Assigning one column of a record. Every column of the table can be assigned, \<open>id\<close> and
  \<open>created_at\<close> included; an unknown column or a value of the wrong kind is an error.
\<close>

definition assign :: "jstring \<Rightarrow> json \<Rightarrow> user \<Rightarrow> pgerror + user" where
  "assign k v u =
     (if k = S ''id'' then (case v of JNum i \<Rightarrow> Inr (u\<lparr>u_id := i\<rparr>) | _ \<Rightarrow> Inl OtherFailure)
      else if k = S ''created_at''
        then (case v of JNum i \<Rightarrow> Inr (u\<lparr>created_at := nat i\<rparr>) | _ \<Rightarrow> Inl OtherFailure)
      else if k = S ''updated_at''
        then (case v of JNum i \<Rightarrow> Inr (u\<lparr>updated_at := nat i\<rparr>) | _ \<Rightarrow> Inl OtherFailure)
      else if v = JNull then Inl NotNullViolation
      else if k = S ''name'' then Inr (u\<lparr>u_name := v\<rparr>)
      else if k = S ''email'' then Inr (u\<lparr>u_email := v\<rparr>)
      else if k = S ''phone'' then Inr (u\<lparr>u_phone := v\<rparr>)
      else if k = S ''address'' then Inr (u\<lparr>u_address := v\<rparr>)
      else if k = S ''city'' then Inr (u\<lparr>u_city := v\<rparr>)
      else if k = S ''country'' then Inr (u\<lparr>u_country := v\<rparr>)
      else Inl OtherFailure)"

fun apply_clauses :: "set_clause list \<Rightarrow> json list \<Rightarrow> nat \<Rightarrow> user \<Rightarrow> pgerror + user" where
  "apply_clauses [] vs t u = Inr u"
| "apply_clauses (SetNow k # cs) vs t u =
     (case assign k (JNum (int t)) u of Inl e \<Rightarrow> Inl e | Inr u' \<Rightarrow> apply_clauses cs vs t u')"
| "apply_clauses (SetParam k n # cs) vs t u =
     (case param vs n of
        None \<Rightarrow> Inl OtherFailure
      | Some v \<Rightarrow> (case assign k v u of Inl e \<Rightarrow> Inl e | Inr u' \<Rightarrow> apply_clauses cs vs t u'))"

text \<open>
  The rows of the table after an update of the rows with id \<open>i\<close>, together with the
  rewritten rows, which \<open>RETURNING *\<close> hands back.
\<close>

fun update_rows ::
  "set_clause list \<Rightarrow> json list \<Rightarrow> nat \<Rightarrow> int \<Rightarrow> user list \<Rightarrow> pgerror + (user list \<times> user list)" where
  "update_rows cs vs t i [] = Inr ([], [])"
| "update_rows cs vs t i (u # us) =
     (if u_id u = i
      then (case apply_clauses cs vs t u of
              Inl e \<Rightarrow> Inl e
            | Inr u' \<Rightarrow> (case update_rows cs vs t i us of
                           Inl e \<Rightarrow> Inl e
                         | Inr (tbl, ret) \<Rightarrow> Inr (u' # tbl, u' # ret)))
      else (case update_rows cs vs t i us of
              Inl e \<Rightarrow> Inl e
            | Inr (tbl, ret) \<Rightarrow> Inr (u # tbl, ret)))"

text \<open>
  \<open>UPDATE users SET ... WHERE id = $w RETURNING *\<close> with the \<open>SET\<close> list \<open>cs\<close>, the
  parameter array \<open>vs\<close> and the statement text \<open>q\<close>. Naming a column twice, a
  placeholder without a value, or an id that is not an integer is an error; a result in
  which two records share an \<open>id\<close> or an \<open>email\<close> is a unique violation. A failed
  statement changes no row.
\<close>

definition update_users ::
  "jstring \<Rightarrow> set_clause list \<Rightarrow> nat \<Rightarrow> json list \<Rightarrow> nat \<Rightarrow> database \<Rightarrow> (pgerror + user list) \<times> database" where
  "update_users q cs w vs t d =
     (let d1 = log_query q d
      in if \<not> distinct (map clause_column cs) then (Inl OtherFailure, d1)
         else (case param vs w of
                 Some (JNum i) \<Rightarrow>
                   (case update_rows cs vs t i (users d) of
                      Inl e \<Rightarrow> (Inl e, d1)
                    | Inr (tbl, ret) \<Rightarrow>
                        if distinct (map u_email tbl) \<and> distinct (map u_id tbl)
                        then (Inr ret, d1\<lparr>users := tbl\<rparr>)
                        else (Inl UniqueViolation, d1))
               | _ \<Rightarrow> (Inl OtherFailure, d1)))"

definition delete_user :: "int \<Rightarrow> database \<Rightarrow> database" where
  "delete_user i d =
     (log_query (S ''DELETE FROM users WHERE id = $1'') d)
       \<lparr>users := filter (\<lambda>u. u_id u \<noteq> i) (users d)\<rparr>"

section \<open>The resource handlers\<close>

definition jfield :: "json \<Rightarrow> jstring \<Rightarrow> json" where
  "jfield obj f = (case get_field obj f of None \<Rightarrow> JNull | Some v \<Rightarrow> v)"

definition first_row :: "user list \<Rightarrow> json" where
  "first_row rows = (case rows of [] \<Rightarrow> JNull | u # _ \<Rightarrow> user_json u)"

definition error_body :: "string \<Rightarrow> jstring \<Rightarrow> json" where
  "error_body e m = JObj [(S ''error'', JStr (S e)), (S ''message'', JStr m)]"

definition not_found :: "int \<Rightarrow> response" where
  "not_found i =
     respond 404 (error_body ''User not found'' (S ''No user found with ID: '' @ int_string i))"

definition success_body :: "string \<Rightarrow> json \<Rightarrow> json" where
  "success_body m row =
     JObj [(S ''success'', JBool True), (S ''message'', JStr (S m)), (S ''data'', row)]"

text \<open>\<open>router.get('/')\<close>\<close>

definition list_handler :: "database \<Rightarrow> response \<times> database" where
  "list_handler d =
     (let (rows, d1) = select_all d
      in (respond 200 (JObj [(S ''success'', JBool True), (S ''count'', JNum (int (length rows))),
                             (S ''data'', JArr (map user_json rows))]), d1))"

text \<open>\<open>router.get('/:id')\<close>, after \<open>validateId\<close>\<close>

definition get_handler :: "int \<Rightarrow> database \<Rightarrow> response \<times> database" where
  "get_handler i d =
     (let (rows, d1) = select_by_id i d
      in if length rows = 0 then (not_found i, d1)
         else (respond 200 (JObj [(S ''success'', JBool True), (S ''data'', first_row rows)]), d1))"

text \<open>
  \<open>router.post('/')\<close>, after \<open>validateUser\<close>. Destructuring a body that is \<open>null\<close> or
  \<open>undefined\<close> raises inside the \<open>try\<close> block.
\<close>

definition create_handler :: "json \<Rightarrow> nat \<Rightarrow> database \<Rightarrow> response \<times> database" where
  "create_handler b t d =
     (if b = JNull
      then (respond 500 (error_body ''Internal server error'' (S ''Failed to create user'')), d)
      else
       (let email = jfield b (S ''email'');
            (existingUser, d1) = select_by_email email d
        in if length existingUser > 0
           then (respond 409 (error_body ''Email already exists''
                   (S ''A user with this email address already exists'')), d1)
           else (case insert_user [jfield b (S ''name''), email, jfield b (S ''phone''),
                                   jfield b (S ''address''), jfield b (S ''city''),
                                   jfield b (S ''country'')] t d1 of
                   (Inr u, d2) \<Rightarrow>
                     (respond 201 (success_body ''User created successfully'' (user_json u)), d2)
                 | (Inl UniqueViolation, d2) \<Rightarrow>
                     (respond 409 (error_body ''Email already exists''
                        (S ''A user with this email address already exists'')), d2)
                 | (Inl NotNullViolation, d2) \<Rightarrow>
                     (respond 400 (error_body ''Missing required field''
                        (S ''All required fields must be provided'')), d2)
                 | (Inl OtherFailure, d2) \<Rightarrow>
                     (respond 500 (error_body ''Internal server error''
                        (S ''Failed to create user'')), d2))))"

definition put_clauses :: "set_clause list" where
  "put_clauses =
     [SetParam (S ''name'') 1, SetParam (S ''email'') 2, SetParam (S ''phone'') 3,
      SetParam (S ''address'') 4, SetParam (S ''city'') 5, SetParam (S ''country'') 6,
      SetNow (S ''updated_at'')]"

definition put_sql :: jstring where
  "put_sql = S ''UPDATE users SET '' @ [10] @
     S ''             name = $1, email = $2, phone = $3, address = $4, city = $5, country = $6, '' @ [10] @
     S ''             updated_at = CURRENT_TIMESTAMP'' @ [10] @
     S ''             WHERE id = $7 '' @ [10] @
     S ''             RETURNING *''"

text \<open>\<open>router.put('/:id')\<close>, after \<open>validateId\<close> and \<open>validateUser\<close>\<close>

definition put_handler :: "int \<Rightarrow> json \<Rightarrow> nat \<Rightarrow> database \<Rightarrow> response \<times> database" where
  "put_handler i b t d =
     (if b = JNull
      then (respond 500 (error_body ''Internal server error'' (S ''Failed to update user'')), d)
      else
       (let email = jfield b (S ''email'');
            (existingUser, d1) = select_by_id i d
        in if length existingUser = 0 then (not_found i, d1)
           else
            (let (emailCheck, d2) = select_by_email_other email i d1
             in if length emailCheck > 0
                then (respond 409 (error_body ''Email already exists''
                        (S ''Another user with this email address already exists'')), d2)
                else (case update_users put_sql put_clauses 7
                             [jfield b (S ''name''), email, jfield b (S ''phone''),
                              jfield b (S ''address''), jfield b (S ''city''),
                              jfield b (S ''country''), JNum i] t d2 of
                        (Inr rows, d3) \<Rightarrow>
                          (respond 200 (success_body ''User updated successfully'' (first_row rows)), d3)
                      | (Inl UniqueViolation, d3) \<Rightarrow>
                          (respond 409 (error_body ''Email already exists''
                             (S ''Another user with this email address already exists'')), d3)
                      | (Inl _, d3) \<Rightarrow>
                          (respond 500 (error_body ''Internal server error''
                             (S ''Failed to update user'')), d3)))))"

text \<open>
  The dynamic update builder of \<open>router.patch('/:id')\<close>: the loop over
  \<open>Object.entries(updates)\<close> with its three variables \<open>updateFields\<close>, \<open>values\<close> and
  \<open>paramCount\<close>.
\<close>

fun build_update ::
  "(jstring \<times> json) list \<Rightarrow> set_clause list \<Rightarrow> json list \<Rightarrow> nat \<Rightarrow> set_clause list \<times> json list \<times> nat" where
  "build_update [] updateFields vals paramCount = (updateFields, vals, paramCount)"
| "build_update ((key, v) # es) updateFields vals paramCount =
     (if key \<in> set allowedFields
      then build_update es (updateFields @ [SetParam key paramCount]) (vals @ [v]) (paramCount + 1)
      else build_update es updateFields vals paramCount)"

fun join_strings :: "jstring \<Rightarrow> jstring list \<Rightarrow> jstring" where
  "join_strings sep [] = []"
| "join_strings sep [x] = x"
| "join_strings sep (x # y # ys) = x @ sep @ join_strings sep (y # ys)"

definition patch_sql :: "set_clause list \<Rightarrow> nat \<Rightarrow> jstring" where
  "patch_sql updateFields paramCount =
     [10] @ S ''            UPDATE users SET '' @ join_strings (S '', '') (map clause_text updateFields) @
     [10] @ S ''            WHERE id = $'' @ decimal paramCount @
     [10] @ S ''            RETURNING *'' @ [10] @ S ''        ''"

text \<open>
  \<open>router.patch('/:id')\<close>, after \<open>validateId\<close> and \<open>validateUserUpdate\<close>. Reading
  \<open>updates.email\<close> from a body that is \<open>null\<close> or \<open>undefined\<close> raises inside the
  \<open>try\<close> block, after the first query.
\<close>

definition patch_handler :: "int \<Rightarrow> json \<Rightarrow> nat \<Rightarrow> database \<Rightarrow> response \<times> database" where
  "patch_handler i updates t d =
     (let (existingUser, d1) = select_by_id i d
      in if length existingUser = 0 then (not_found i, d1)
         else (case entries updates of
                 None \<Rightarrow> (respond 500 (error_body ''Internal server error''
                             (S ''Failed to update user'')), d1)
               | Some es \<Rightarrow>
                  (let email = jfield updates (S ''email'');
                       (emailCheck, d2) = (if truthy email then select_by_email_other email i d1
                                           else ([], d1))
                   in if length emailCheck > 0
                      then (respond 409 (error_body ''Email already exists''
                              (S ''Another user with this email address already exists'')), d2)
                      else
                       (let (updateFields, vals, paramCount) = build_update es [] [] 1
                        in if length updateFields = 0
                           then (respond 400 (error_body ''No valid fields to update''
                                   (S ''Please provide at least one valid field to update'')), d2)
                           else
                            (let updateFields' = updateFields @ [SetNow (S ''updated_at'')];
                                 vals' = vals @ [JNum i]
                             in case update_users (patch_sql updateFields' paramCount)
                                       updateFields' paramCount vals' t d2 of
                                  (Inr rows, d3) \<Rightarrow>
                                    (respond 200 (success_body ''User updated successfully''
                                       (first_row rows)), d3)
                                | (Inl UniqueViolation, d3) \<Rightarrow>
                                    (respond 409 (error_body ''Email already exists''
                                       (S ''Another user with this email address already exists'')), d3)
                                | (Inl _, d3) \<Rightarrow>
                                    (respond 500 (error_body ''Internal server error''
                                       (S ''Failed to update user'')), d3))))))"

text \<open>\<open>router.delete('/:id')\<close>, after \<open>validateId\<close>\<close>

definition delete_handler :: "int \<Rightarrow> database \<Rightarrow> response \<times> database" where
  "delete_handler i d =
     (let (existingUser, d1) = select_by_id i d
      in if length existingUser = 0 then (not_found i, d1)
         else (respond 200 (JObj [(S ''success'', JBool True),
                                  (S ''message'', JStr (S ''User deleted successfully''))]),
               delete_user i d1))"

section \<open>The application\<close>

text \<open>
  A request as the middleware chain of the application sees it once the body parsers,
  \<open>hpp\<close> and \<open>mongoSanitize\<close> (library stages that rewrite but do not answer) have run:
  method, path segments, \<open>originalUrl\<close>, the \<open>Content-Length\<close> header, body, query
  string object, client address, and what the handler reads from its environment
  (\<open>Date.now()\<close>, \<open>new Date().toISOString()\<close>, \<open>process.uptime()\<close>). The methods are
  those of the routes; \<open>OPTIONS\<close>, which \<open>cors\<close> answers itself, is left out.
\<close>

datatype meth = GET | POST | PUT | PATCH | DELETE

definition meth_name :: "meth \<Rightarrow> jstring" where
  "meth_name m = (case m of GET \<Rightarrow> S ''GET'' | POST \<Rightarrow> S ''POST'' | PUT \<Rightarrow> S ''PUT''
                  | PATCH \<Rightarrow> S ''PATCH'' | DELETE \<Rightarrow> S ''DELETE'')"

record request =
  r_method :: meth
  r_path :: "jstring list"
  r_url :: jstring
  r_content_length :: "jstring option"
  r_body :: json
  r_query :: json
  r_ip :: jstring
  r_now :: nat
  r_iso :: jstring
  r_uptime :: int

text \<open>What lives across requests: the counters of the three limiters and the store.\<close>

record state =
  general_hits :: hits
  api_hits :: hits
  strict_hits :: hits
  db :: database

text \<open>
  A limiter writes its quota headers before the later stages run; a later limiter
  overwrites them, so a response keeps the quota of the last limiter it passed.
\<close>

definition stamp :: "quota \<Rightarrow> response \<Rightarrow> response" where
  "stamp q r = (case ratelimit r of None \<Rightarrow> r\<lparr>ratelimit := Some q\<rparr> | Some _ \<Rightarrow> r)"

definition too_many :: "limiter \<Rightarrow> quota \<Rightarrow> response" where
  "too_many l q = \<lparr>status = 429, rbody = JObj [(S ''error'', JStr (message l))], ratelimit = Some q\<rparr>"

definition on_db :: "(database \<Rightarrow> response \<times> database) \<Rightarrow> state \<Rightarrow> response \<times> state" where
  "on_db h st = (let (r, d) = h (db st) in (r, st\<lparr>db := d\<rparr>))"

text \<open>\<open>strictLimiter\<close> in front of the rest \<open>k\<close> of a route.\<close>

definition sensitive :: "request \<Rightarrow> (state \<Rightarrow> response \<times> state) \<Rightarrow> state \<Rightarrow> response \<times> state" where
  "sensitive req k st =
     (let (h, q) = rate_limit strictLimiter (strict_hits st) (r_ip req) (r_now req);
          st1 = st\<lparr>strict_hits := h\<rparr>
      in if allowed q then (let (r, st2) = k st1 in (stamp q r, st2))
         else (too_many strictLimiter q, st1))"

definition with_id :: "jstring \<Rightarrow> (int \<Rightarrow> state \<Rightarrow> response \<times> state) \<Rightarrow> state \<Rightarrow> response \<times> state" where
  "with_id s k st = (case validateId s of Inl r \<Rightarrow> (r, st) | Inr i \<Rightarrow> k i st)"

definition with_body ::
  "(json \<Rightarrow> response + json) \<Rightarrow> request \<Rightarrow> (json \<Rightarrow> state \<Rightarrow> response \<times> state) \<Rightarrow> state \<Rightarrow> response \<times> state" where
  "with_body v req k st = (case v (r_body req) of Inl r \<Rightarrow> (r, st) | Inr b \<Rightarrow> k b st)"

text \<open>
  The routes of \<open>routes/users.js\<close> on the path below \<open>/api/users\<close>; \<open>None\<close> when no
  route matches.
\<close>

definition usersRouter :: "lib \<Rightarrow> request \<Rightarrow> jstring list \<Rightarrow> state \<Rightarrow> (response \<times> state) option" where
  "usersRouter L req rest st =
     (case rest of
        [] \<Rightarrow>
          (case r_method req of
             GET \<Rightarrow> Some (on_db list_handler st)
           | POST \<Rightarrow> Some (sensitive req (with_body (validateUser L) req
                             (\<lambda>b. on_db (create_handler b (r_now req)))) st)
           | _ \<Rightarrow> None)
      | [s] \<Rightarrow>
          (case r_method req of
             GET \<Rightarrow> Some (with_id s (\<lambda>i. on_db (get_handler i)) st)
           | POST \<Rightarrow> None
           | PUT \<Rightarrow> Some (sensitive req (with_id s (\<lambda>i. with_body (validateUser L) req
                            (\<lambda>b. on_db (put_handler i b (r_now req))))) st)
           | PATCH \<Rightarrow> Some (sensitive req (with_id s (\<lambda>i. with_body (validateUserUpdate L) req
                              (\<lambda>b. on_db (patch_handler i b (r_now req))))) st)
           | DELETE \<Rightarrow> Some (sensitive req (with_id s (\<lambda>i. on_db (delete_handler i))) st))
      | _ \<Rightarrow> None)"

definition health :: "request \<Rightarrow> response" where
  "health req = respond 200 (JObj [(S ''status'', JStr (S ''OK'')),
                                   (S ''timestamp'', JStr (r_iso req)),
                                   (S ''uptime'', JNum (r_uptime req))])"

definition not_found_route :: "request \<Rightarrow> response" where
  "not_found_route req =
     respond 404 (JObj [(S ''error'', JStr (S ''Not Found'')),
        (S ''message'', JStr (S ''Cannot '' @ meth_name (r_method req) @ S '' '' @ r_url req))])"

text \<open>
  The global error handler on an exception with message \<open>m\<close> and no \<open>status\<close>, \<open>name\<close>
  or \<open>code\<close> of the kinds it singles out (the \<open>stack\<close> entry, \<open>undefined\<close> outside
  development, is left out).
\<close>

definition error_handler :: "lib \<Rightarrow> jstring \<Rightarrow> response" where
  "error_handler L m =
     respond 500 (JObj [(S ''error'', JStr m),
        (S ''message'', JStr (if development L then m else S ''Something went wrong''))])"

definition not_a_function :: jstring where
  "not_a_function = S ''obj.hasOwnProperty is not a function''"

text \<open>
  What follows the general limiter: \<open>/api/users\<close> with the API limiter and the router,
  then \<open>GET /health\<close>, then the 404 handler.
\<close>

definition route :: "lib \<Rightarrow> request \<Rightarrow> state \<Rightarrow> response \<times> state" where
  "route L req st =
     (case r_path req of
        [] \<Rightarrow> (not_found_route req, st)
      | [a] \<Rightarrow> if a = S ''health'' \<and> r_method req = GET then (health req, st)
               else (not_found_route req, st)
      | a # b # rest \<Rightarrow>
          if a = S ''api'' \<and> b = S ''users''
          then (let (h, q) = rate_limit apiLimiter (api_hits st) (r_ip req) (r_now req);
                    st1 = st\<lparr>api_hits := h\<rparr>
                in if allowed q
                   then (case usersRouter L req rest st1 of
                           Some (r, st2) \<Rightarrow> (stamp q r, st2)
                         | None \<Rightarrow> (stamp q (not_found_route req), st1))
                   else (too_many apiLimiter q, st1))
          else (not_found_route req, st))"

text \<open>The answer of \<open>sqlInjectionProtection\<close> for the leaf at path \<open>f\<close>.\<close>

definition injection_response :: "jstring \<Rightarrow> response" where
  "injection_response f =
     respond 400 (JObj [(S ''error'', JStr (S ''Potential SQL injection detected'')),
                        (S ''field'', JStr f)])"

text \<open>
  The middleware chain of the application in mount order: the size guard, the content
  sanitizer, the injection pattern detector (route parameters are not yet bound when the
  two run, so they see an empty \<open>req.params\<close>), the general limiter, the routes. The
  stages that only write response headers (\<open>securityHeaders\<close>, \<open>helmet\<close>, \<open>cors\<close>) are
  left out.
\<close>

definition app :: "lib \<Rightarrow> request \<Rightarrow> state \<Rightarrow> response \<times> state" where
  "app L req st =
     (if requestSizeLimiter (r_content_length req)
      then (respond 413 (JObj [(S ''error'', JStr (S ''Request entity too large'')),
                               (S ''maxSize'', JStr (S ''10MB''))]), st)
      else
       (case xssProtection (purify L) (r_body req) (r_query req) (JObj []) of
          None \<Rightarrow> (error_handler L not_a_function, st)
        | Some (b, qy, ps) \<Rightarrow>
            (case sqlInjectionProtection b qy ps of
               Reject f \<Rightarrow> (injection_response f, st)
             | TypeError \<Rightarrow> (error_handler L not_a_function, st)
             | Continue \<Rightarrow>
                 (let (h, q) = rate_limit generalLimiter (general_hits st) (r_ip req) (r_now req);
                      st1 = st\<lparr>general_hits := h\<rparr>
                  in if allowed q
                     then (let (r, st2) = route L (req\<lparr>r_body := b, r_query := qy\<rparr>) st1
                           in (stamp q r, st2))
                     else (too_many generalLimiter q, st1)))))"

section \<open>Instances used in the examples\<close>

text \<open>
  A small stand-in for the sanitizer of the library, used only in the examples: it
  drops every tag, and a \<open>script\<close> element together with its content.
\<close>

datatype strip_mode = InText | InTag | InScriptTag | InScript

fun strip_from :: "strip_mode \<Rightarrow> jstring \<Rightarrow> jstring" where
  "strip_from m [] = []"
| "strip_from InText (c # cs) =
     (if c = 60 then (if starts_with_ci (S ''SCRIPT'') cs then strip_from InScriptTag cs
                      else strip_from InTag cs)
      else c # strip_from InText cs)"
| "strip_from InTag (c # cs) = (if c = 62 then strip_from InText cs else strip_from InTag cs)"
| "strip_from InScriptTag (c # cs) =
     (if c = 62 then strip_from InScript cs else strip_from InScriptTag cs)"
| "strip_from InScript (c # cs) =
     (if c = 60 \<and> starts_with_ci (S ''/SCRIPT'') cs then strip_from InTag cs
      else strip_from InScript cs)"

definition strip_markup :: "jstring \<Rightarrow> jstring" where
  "strip_markup s = strip_from InText s"

definition L0 :: lib where
  "L0 = \<lparr>purify = strip_markup,
          isLength = (\<lambda>lo hi s. lo \<le> length s \<and> (case hi of None \<Rightarrow> True | Some h \<Rightarrow> length s \<le> h)),
          isEmail = (\<lambda>s. 64 \<in> set s),
          normalizeEmail = (\<lambda>s. Some s),
          nonstring = (\<lambda>f sts v. ([field_error f (S ''Invalid value'')
                                      (case v of None \<Rightarrow> JNull | Some x \<Rightarrow> x)], v)),
          development = False\<rparr>"

definition user1 :: user where
  "user1 = \<lparr>u_id = 1, u_name = JStr (S ''Dana Levi''), u_email = JStr (S ''dana@example.com''),
             u_phone = JStr (S ''+972501234567''), u_address = JStr (S ''12 Herzl Street''),
             u_city = JStr (S ''Haifa''), u_country = JStr (S ''Israel''),
             created_at = 1000, updated_at = 1000\<rparr>"

definition st0 :: state where
  "st0 = \<lparr>general_hits = Map.empty, api_hits = Map.empty, strict_hits = Map.empty,
           db = \<lparr>users = [user1], next_id = 2, qlog = []\<rparr>\<rparr>"

definition req0 :: request where
  "req0 = \<lparr>r_method = GET, r_path = [S ''health''], r_url = S ''/health'',
            r_content_length = None, r_body = JObj [], r_query = JObj [],
            r_ip = S ''10.0.0.1'', r_now = 5000, r_iso = S ''2025-01-01T00:00:05.000Z'',
            r_uptime = 5\<rparr>"

section \<open>Notions used to state the properties\<close>















definition patch_user1 :: "json \<Rightarrow> request" where
  "patch_user1 b = req0\<lparr>r_method := PATCH, r_path := [S ''api'', S ''users'', S ''1''],
                        r_url := S ''/api/users/1'', r_body := b\<rparr>"


text \<open>
  The number of requests a limiter store holds for a client in the window that is open
  at time \<open>now\<close> (none when the client has no window or its window has ended), and the
  end of the window a request at time \<open>now\<close> falls into.
\<close>

definition live_count :: "hits \<Rightarrow> jstring \<Rightarrow> nat \<Rightarrow> nat" where
  "live_count store key now =
     (case store key of None \<Rightarrow> 0 | Some (c, r) \<Rightarrow> if r \<le> now then 0 else c)"

definition window_end :: "limiter \<Rightarrow> hits \<Rightarrow> jstring \<Rightarrow> nat \<Rightarrow> nat" where
  "window_end l store key now =
     (case store key of
        None \<Rightarrow> now + windowMs l
      | Some (c, r) \<Rightarrow> if r \<le> now then now + windowMs l else r)"













text \<open>
  A body whose only key is outside the whitelist, and the answer of \<open>validateUserUpdate\<close>
  to a body \<open>b\<close> that names no whitelisted field.
\<close>

definition body_role :: json where
  "body_role = JObj [(S ''role'', JStr (S ''admin''))]"

definition no_fields_response :: "json \<Rightarrow> response" where
  "no_fields_response b =
     respond 400 (JObj
       [(S ''error'', JStr (S ''Validation failed'')),
        (S ''details'', JArr [JObj
            [(S ''field'', JStr []),
             (S ''message'', JStr (S ''At least one field must be provided for update'')),
             (S ''value'', b)]])])"






section \<open>Properties of the request size guard\<close>

lemma digit_val_digit: "n < 10 \<Longrightarrow> digit_val (48 + n) = Some n"
  by (simp add: digit_val_def)

lemma radix_digit_decimal: "list_all (radix_digit 10) (decimal n)"
proof (induction n rule: decimal.induct)
  case (1 n)
  show ?case
  proof (cases "n < 10")
    case True
    then show ?thesis by (subst decimal.simps) (simp add: radix_digit_def digit_val_def)
  next
    case False
    then have "list_all (radix_digit 10) (decimal (n div 10))" using 1 by simp
    moreover have "radix_digit 10 (48 + n mod 10)"
      by (simp add: radix_digit_def digit_val_def)
    ultimately show ?thesis using False by (subst decimal.simps) simp
  qed
qed

lemma radix_value_append:
  "radix_value R acc (xs @ ys) = radix_value R (radix_value R acc xs) ys"
  by (induction xs arbitrary: acc) auto

lemma radix_value_decimal: "radix_value 10 0 (decimal n) = n"
proof (induction n rule: decimal.induct)
  case (1 n)
  show ?case
  proof (cases "n < 10")
    case True
    then show ?thesis by (subst decimal.simps) (simp add: digit_val_def)
  next
    case False
    then have "radix_value 10 0 (decimal (n div 10)) = n div 10" using 1 by simp
    then show ?thesis using False
      by (subst decimal.simps) (simp add: radix_value_append digit_val_def)
  qed
qed

lemma decimal_nonempty: "decimal n \<noteq> []"
  by (subst decimal.simps) simp

lemma decimal_digits: "list_all is_digit (decimal n)"
proof (induction n rule: decimal.induct)
  case (1 n)
  show ?case
  proof (cases "n < 10")
    case True
    then show ?thesis by (subst decimal.simps) (simp add: is_digit_def)
  next
    case False
    then have "list_all is_digit (decimal (n div 10))" using 1 by simp
    then show ?thesis using False by (subst decimal.simps) (simp add: is_digit_def)
  qed
qed

lemma takeWhile_all: "list_all P xs \<Longrightarrow> takeWhile P xs = xs"
  by (induction xs) auto

lemma digit_not_space: "is_digit c \<Longrightarrow> \<not> js_space c"
  by (auto simp: is_digit_def js_space_def)

lemma digit_radix: "is_digit c \<Longrightarrow> radix_digit 10 c"
  by (auto simp: is_digit_def radix_digit_def digit_val_def)

lemma parseInt_digits:
  assumes "list_all is_digit ds" "ds \<noteq> []"
  shows "parseInt ds = Some (int (radix_value 10 0 ds))"
proof -
  obtain c cs where ds: "ds = c # cs" using assms(2) by (cases ds) auto
  have c: "is_digit c" and cs: "list_all is_digit cs" using assms(1) ds by auto
  have nospace: "dropWhile js_space ds = ds" using c ds digit_not_space by simp
  have nosign: "c \<noteq> 45" "c \<noteq> 43" using c by (auto simp: is_digit_def)
  have nohex: "\<not> starts_with (S ''0x'') ds" "\<not> starts_with (S ''0X'') ds"
    using cs ds by (cases cs; auto simp: S_def is_digit_def)+
  have tw: "takeWhile (radix_digit 10) ds = ds"
    using assms(1) by (intro takeWhile_all) (auto simp: list_all_iff digit_radix)
  show ?thesis
    using nospace nosign nohex tw assms(2) ds
    by (simp add: parseInt_def parseInt_from_def Let_def)
qed

lemma parseInt_decimal: "parseInt (decimal n) = Some (int n)"
  using parseInt_digits [OF decimal_digits decimal_nonempty] by (simp add: radix_value_decimal)

lemma requestSizeLimiter_iff:
  "requestSizeLimiter cl \<longleftrightarrow> (\<exists>h n. cl = Some h \<and> parseInt h = Some n \<and> maxSize < n)"
proof (cases cl)
  case None
  then show ?thesis by (simp add: requestSizeLimiter_def)
next
  case (Some h)
  have "parseInt [] = None" by (simp add: parseInt_def parseInt_from_def Let_def S_def)
  then show ?thesis using Some
    by (cases "h = []") (auto simp: requestSizeLimiter_def split: option.splits)
qed

text \<open>
  Claim C10. The size guard decides from the declared \<open>Content-Length\<close> header alone: it
  answers 413 exactly when the header is present and \<open>parseInt\<close> of it exceeds
  10 MB (10485760); in particular a header that is the decimal numeral of \<open>k\<close> is refused
  exactly when \<open>k\<close> exceeds the bound, and a request without the header is never refused by
  the guard. A refused request gets status 413 and leaves the whole state as it was.
\<close>

theorem size_guard_by_content_length:
  "(requestSizeLimiter (r_content_length req) \<longleftrightarrow>
      (\<exists>h n. r_content_length req = Some h \<and> parseInt h = Some n \<and> 10485760 < n)) \<and>
   (requestSizeLimiter (Some (decimal k)) \<longleftrightarrow> 10485760 < k) \<and>
   (r_content_length req = None \<longrightarrow> \<not> requestSizeLimiter (r_content_length req)) \<and>
   (requestSizeLimiter (r_content_length req) \<longrightarrow>
      status (fst (app L req st)) = 413 \<and> snd (app L req st) = st)"
proof -
  have a: "requestSizeLimiter (r_content_length req) \<longleftrightarrow>
      (\<exists>h n. r_content_length req = Some h \<and> parseInt h = Some n \<and> 10485760 < n)"
    by (simp add: requestSizeLimiter_iff maxSize_def)
  have b: "requestSizeLimiter (Some (decimal k)) \<longleftrightarrow> 10485760 < k"
    by (simp add: requestSizeLimiter_iff parseInt_decimal maxSize_def)
  have c: "r_content_length req = None \<longrightarrow> \<not> requestSizeLimiter (r_content_length req)"
    by (simp add: requestSizeLimiter_def)
  have d: "requestSizeLimiter (r_content_length req) \<longrightarrow>
      status (fst (app L req st)) = 413 \<and> snd (app L req st) = st"
    by (simp add: app_def respond_def)
  from a b c d show ?thesis by blast
qed



theorem size_guard_by_content_length_witness:
  "requestSizeLimiter (r_content_length (req0\<lparr>r_content_length := Some (S ''10485761'')\<rparr>)) \<and>
   status (fst (app L0 (req0\<lparr>r_content_length := Some (S ''10485761'')\<rparr>) st0)) = 413 \<and>
   snd (app L0 (req0\<lparr>r_content_length := Some (S ''10485761'')\<rparr>) st0) = st0 \<and>
   r_content_length req0 = None \<and> \<not> requestSizeLimiter (r_content_length req0)"
proof -
  have d: "S ''10485761'' = decimal 10485761" by (simp add: decimal.simps S_def)
  have h: "requestSizeLimiter (r_content_length (req0\<lparr>r_content_length := Some (S ''10485761'')\<rparr>))"
    using size_guard_by_content_length [of req0 10485761 L0 st0] by (simp add: d)
  have n: "r_content_length req0 = None" by (simp add: req0_def)
  show ?thesis
    using h n size_guard_by_content_length
      [of "req0\<lparr>r_content_length := Some (S ''10485761'')\<rparr>" 0 L0 st0]
      size_guard_by_content_length [of req0 0 L0 st0]
    by blast
qed

section \<open>Properties of the injection pattern detector\<close>














































section \<open>Properties of the dynamic update builder\<close>


























lemmas eval_defs =
  app_def requestSizeLimiter_def xssProtection_def sanitize_source_def sanitizeObject_def
  shadowed_def sqlInjectionProtection_def checkObject_def currentPath_def
  detectSQLInjection_def pattern_keyword_def pattern_syntax_def pattern_tautology_def
  pattern_constant_def pattern_quote_def contains_def keyword_at_def tautology_at_def
  sql_keywords_def word_boundary_def is_word_def upper_def line_term_def
  rate_limit_def generalLimiter_def apiLimiter_def strictLimiter_def createRateLimit_def
  route_def usersRouter_def sensitive_def with_id_def with_body_def on_db_def stamp_def
  too_many_def respond_def
  validateId_def isInt_id_def parseInt10_def parseInt_from_def js_space_def radix_digit_def
  digit_val_def is_digit_def validate_def field_error_def
  validateUserUpdate_def validateUserUpdate_chains_def run_chain_def get_field_def set_field_def
  trimS_def escapeS_def normalizeEmailS_def when_truthy_def js_trim_def escape_def escape_char_def
  collapse_spaces_def name_regex_def name_char_def address_regex_def address_char_def phone_regex_def
  provided_check_def entries_def allowedFields_def
  patch_handler_def select_by_id_def select_by_email_other_def log_query_def jfield_def
  update_users_def clause_column_def param_def assign_def first_row_def user_json_def
  success_body_def error_body_def not_found_def
  L0_def st0_def req0_def user1_def strip_markup_def S_def Let_def







section \<open>Properties of the rate limiters\<close>


lemma rate_limit_store:
  "fst (rate_limit l store key now) =
     store(key \<mapsto> (live_count store key now + 1, window_end l store key now))"
  by (auto simp: rate_limit_def live_count_def window_end_def Let_def split: option.splits)

lemma live_count_after:
  assumes "now' < window_end l store key now"
  shows "live_count (fst (rate_limit l store key now)) key now' = live_count store key now + 1"
    and "window_end l (fst (rate_limit l store key now)) key now' = window_end l store key now"
  using assms by (simp_all add: rate_limit_store live_count_def window_end_def)

lemma live_count_other:
  "k \<noteq> key \<Longrightarrow> live_count (fst (rate_limit l store key now)) k t = live_count store k t"
  by (simp add: rate_limit_store live_count_def)

lemma rate_limit_changes: "0 < windowMs l \<Longrightarrow> fst (rate_limit l store key now) \<noteq> store"
proof
  assume w: "0 < windowMs l" and e: "fst (rate_limit l store key now) = store"
  then have "store key = Some (live_count store key now + 1, window_end l store key now)"
    by (metis rate_limit_store fun_upd_same)
  then show False using w
    by (cases "store key") (auto simp: live_count_def window_end_def split: if_splits)
qed



















lemma limits [simp]:
  "max_hits generalLimiter = 100" "max_hits apiLimiter = 1000" "max_hits strictLimiter = 5"
  "windowMs generalLimiter = 900000" "windowMs apiLimiter = 3600000"
  "windowMs strictLimiter = 900000"
  by (simp_all add: generalLimiter_def apiLimiter_def strictLimiter_def createRateLimit_def)


lemma stamp_status [simp]: "status (stamp q r) = status r"
  by (simp add: stamp_def split: option.splits)


lemma too_many_fields [simp]:
  "status (too_many l q) = 429" "ratelimit (too_many l q) = Some q"
  by (simp_all add: too_many_def)



















section \<open>Properties of the health route\<close>









section \<open>Partial updates that name no field\<close>

lemma run_chains_absent:
  assumes "\<forall>(f, sts) \<in> set cs. map_of kvs f = None \<and> (\<exists>sts'. sts = Optional # sts')"
  shows "run_chains L cs (JObj kvs) = ([], JObj kvs)"
  using assms
  by (induction cs) (auto simp: run_chain_def get_field_def)

lemma validateUserUpdate_no_fields:
  assumes "fst ` set kvs \<inter> set allowedFields = {}"
  shows "validateUserUpdate L (JObj kvs) = Inl (no_fields_response (JObj kvs))"
proof -
  have a: "\<And>f. f \<in> set allowedFields \<Longrightarrow> map_of kvs f = None"
    using assms by (auto simp: map_of_eq_None_iff)
  have "\<forall>(f, sts) \<in> set (validateUserUpdate_chains L).
          map_of kvs f = None \<and> (\<exists>sts'. sts = Optional # sts')"
    using a by (simp add: validateUserUpdate_chains_def allowedFields_def)
  then have r: "run_chains L (validateUserUpdate_chains L) (JObj kvs) = ([], JObj kvs)"
    by (rule run_chains_absent)
  have "filter (\<lambda>key. key \<in> set allowedFields) (map fst kvs) = []"
    using assms by (auto simp: filter_empty_conv)
  then have p: "provided_check (JObj kvs) =
      [field_error [] (S ''At least one field must be provided for update'') (JObj kvs)]"
    by (simp add: provided_check_def entries_def)
  show ?thesis
    by (simp add: validateUserUpdate_def r p validate_def field_error_def no_fields_response_def)
qed

text \<open>
  Claim C8, at its failing inputs. \<open>PATCH /api/users/1\<close> with the body \<open>{}\<close>, and with
  the body \<open>{role: 'admin'}\<close>, is answered 400 without a store read or write, but by
  \<open>validateUserUpdate\<close>, which runs before the handler: the error is
  \<open>Validation failed\<close> and the one entry of the details carries the message
  \<open>At least one field must be provided for update\<close>. The branch of the handler that
  answers \<open>No valid fields to update\<close> is not reached.
\<close>

theorem patch_without_fields_answer:
  "status (fst (app L0 (patch_user1 (JObj [])) st0)) = 400 \<and>
   rbody (fst (app L0 (patch_user1 (JObj [])) st0)) =
     JObj [(S ''error'', JStr (S ''Validation failed'')),
           (S ''details'', JArr [JObj
              [(S ''field'', JStr []),
               (S ''message'', JStr (S ''At least one field must be provided for update'')),
               (S ''value'', JObj [])]])] \<and>
   db (snd (app L0 (patch_user1 (JObj [])) st0)) = db st0 \<and>
   status (fst (app L0 (patch_user1 body_role) st0)) = 400 \<and>
   rbody (fst (app L0 (patch_user1 body_role) st0)) =
     JObj [(S ''error'', JStr (S ''Validation failed'')),
           (S ''details'', JArr [JObj
              [(S ''field'', JStr []),
               (S ''message'', JStr (S ''At least one field must be provided for update'')),
               (S ''value'', body_role)]])] \<and>
   db (snd (app L0 (patch_user1 body_role) st0)) = db st0"
  by (simp add: patch_user1_def body_role_def eval_defs)

section \<open>Properties of the field validators\<close>














end
